theory Spec2Isabelle
  imports Main "HOL-Library.Word" "HOL-Library.Signed_Division" "HOL-Library.Code_Target_Nat"
begin

unbundle bit_operations_syntax

section \<open>The straw reader of .hic contact matrices (straw.cpp)\<close>

text \<open>
  The development embeds the functions of \<^verbatim>\<open>straw.cpp\<close> that decide what a query
  on a local file returns. C++ \<^verbatim>\<open>int\<close>, \<^verbatim>\<open>short\<close> and \<^verbatim>\<open>long\<close> values are
  mathematical integers (\<^typ>\<open>int\<close>); values read from a file are decoded from their
  little-endian two's complement bytes and therefore lie in the range of their type.
  Signed overflow of an arithmetic result is undefined behaviour in C++ and is not
  followed: results are stated for runs in which the arithmetic stays in range. Integer
  division is the truncating division of C++ (\<open>sdiv\<close>). A C++ \<^verbatim>\<open>char\<close> is a
  \<^typ>\<open>char\<close>, so a file, a buffer and a \<^verbatim>\<open>std::string\<close> are all of type
  \<^typ>\<open>string\<close>. A \<^verbatim>\<open>float\<close> or \<^verbatim>\<open>double\<close> is its IEEE-754 bit pattern.
\<close>

subsection \<open>Ways a run can end without returning\<close>

text \<open>
  The source reports its own errors on \<^verbatim>\<open>cerr\<close> and returns an empty result; those
  are ordinary returns below. What is left are the C++ exceptions thrown by the standard
  library and the executions the language leaves undefined, each one a value:
  \<^item> \<open>ReadPastEnd\<close>: a \<^verbatim>\<open>read\<close> found fewer bytes than it was asked for, or a
    \<^verbatim>\<open>seekg\<close> went to a negative position; the destination keeps whatever it held
    and every later read of the stream fails too;
  \<^item> \<open>Uninitialised\<close>: a local variable is used that no path has assigned;
  \<^item> \<open>DivisionByZero\<close>, \<open>IndexOutOfRange\<close>: integer division by zero, a vector
    subscript outside the vector;
  \<^item> \<open>HttpSource\<close>: the file name starts with \<^verbatim>\<open>http\<close>; the libcurl path is not
    embedded.
\<close>

datatype cpp_exception = invalid_argument | out_of_range | length_error | bad_array_new_length

datatype stop =
    Throws cpp_exception
  | ReadPastEnd
  | Uninitialised
  | DivisionByZero
  | IndexOutOfRange
  | HttpSource

definition bindR :: "stop + 'a \<Rightarrow> ('a \<Rightarrow> stop + 'b) \<Rightarrow> stop + 'b" where
  "bindR m f = (case m of Inl e \<Rightarrow> Inl e | Inr x \<Rightarrow> f x)"

subsection \<open>Reading from a stream\<close>

text \<open>
  An input stream is the list of the bytes not yet read. \<^verbatim>\<open>fin.read(&x, n)\<close> takes the
  next \<open>n\<close> bytes; \<^verbatim>\<open>getline(fin, str, delim)\<close> takes the bytes before the next
  delimiter and drops the delimiter, or takes everything when there is none. In that
  last case the real stream is at its end with \<^verbatim>\<open>eofbit\<close> set, and every \<^verbatim>\<open>read\<close>
  after it fails, as it does here on the empty rest. \<^verbatim>\<open>fin.seekg(p)\<close> on a file drops
  the first \<open>p\<close> bytes of the whole file.
\<close>

definition getline :: "char \<Rightarrow> string \<Rightarrow> string \<times> string" where
  "getline delim fin =
     (takeWhile (\<lambda>c. c \<noteq> delim) fin, drop 1 (dropWhile (\<lambda>c. c \<noteq> delim) fin))"

definition read :: "nat \<Rightarrow> string \<Rightarrow> stop + (string \<times> string)" where
  "read n fin = (if length fin < n then Inl ReadPastEnd else Inr (take n fin, drop n fin))"

definition seekg :: "string \<Rightarrow> int \<Rightarrow> stop + string" where
  "seekg file p = (if p < 0 then Inl ReadPastEnd else Inr (drop (nat p) file))"

fun le_nat :: "string \<Rightarrow> nat" where
  "le_nat [] = 0"
| "le_nat (c # cs) = of_char c + 256 * le_nat cs"

definition twos :: "nat \<Rightarrow> nat \<Rightarrow> int" where
  "twos w v = (if v < 2 ^ (w - 1) then int v else int v - 2 ^ w)"

definition read_char :: "string \<Rightarrow> stop + (int \<times> string)" where
  "read_char fin = bindR (read 1 fin) (\<lambda>(bs, fin'). Inr (twos 8 (le_nat bs), fin'))"

definition read_short :: "string \<Rightarrow> stop + (int \<times> string)" where
  "read_short fin = bindR (read 2 fin) (\<lambda>(bs, fin'). Inr (twos 16 (le_nat bs), fin'))"

definition read_int :: "string \<Rightarrow> stop + (int \<times> string)" where
  "read_int fin = bindR (read 4 fin) (\<lambda>(bs, fin'). Inr (twos 32 (le_nat bs), fin'))"

definition read_long :: "string \<Rightarrow> stop + (int \<times> string)" where
  "read_long fin = bindR (read 8 fin) (\<lambda>(bs, fin'). Inr (twos 64 (le_nat bs), fin'))"

definition read_float :: "string \<Rightarrow> stop + (32 word \<times> string)" where
  "read_float fin = bindR (read 4 fin) (\<lambda>(bs, fin'). Inr (word_of_nat (le_nat bs), fin'))"

definition read_double :: "string \<Rightarrow> stop + (64 word \<times> string)" where
  "read_double fin = bindR (read 8 fin) (\<lambda>(bs, fin'). Inr (word_of_nat (le_nat bs), fin'))"

text \<open>\<^verbatim>\<open>ostream << int\<close>: the decimal digits, after a minus sign when negative.\<close>

fun digits :: "nat \<Rightarrow> string" where
  "digits n = (if n < 10 then [char_of (48 + n)]
               else digits (n div 10) @ [char_of (48 + n mod 10)])"

declare digits.simps [simp del]

definition show_int :: "int \<Rightarrow> string" where
  "show_int i = (if i < 0 then CHR ''-'' # digits (nat (- i)) else digits (nat i))"

text \<open>
  \<^verbatim>\<open>std::stoi\<close> of the standard library: leading white space, an optional sign, then
  at least one decimal digit; what follows the digits is ignored. It throws
  \<^verbatim>\<open>std::invalid_argument\<close> when there is no digit and \<^verbatim>\<open>std::out_of_range\<close> when
  the value is no \<^verbatim>\<open>int\<close>.
\<close>

definition isspace :: "char \<Rightarrow> bool" where
  "isspace c = (c = CHR '' '' \<or> (9 \<le> (of_char c :: nat) \<and> (of_char c :: nat) \<le> 13))"

definition isdigit :: "char \<Rightarrow> bool" where
  "isdigit c = (48 \<le> (of_char c :: nat) \<and> (of_char c :: nat) \<le> 57)"

definition decimal :: "string \<Rightarrow> nat" where
  "decimal ds = foldl (\<lambda>v c. 10 * v + (of_char c - 48)) 0 ds"

definition stoi :: "string \<Rightarrow> stop + int" where
  "stoi str =
     (let s1 = dropWhile isspace str;
          neg = (take 1 s1 = ''-'');
          s2 = (if take 1 s1 = ''-'' \<or> take 1 s1 = ''+'' then drop 1 s1 else s1);
          ds = takeWhile isdigit s2;
          v = (if neg then - int (decimal ds) else int (decimal ds))
      in if ds = [] then Inl (Throws invalid_argument)
         else if v < - (2 ^ 31) \<or> 2 ^ 31 \<le> v then Inl (Throws out_of_range)
         else Inr v)"

text \<open>
  A \<^verbatim>\<open>stringstream\<close> over a region string is \<open>Some\<close> of the unread characters while it
  is good and \<open>None\<close> once it has met its end. \<open>getline_ss\<close> gives the extracted
  string, whether the stream converts to \<^verbatim>\<open>true\<close> afterwards, and the stream: a
  \<^verbatim>\<open>getline\<close> that meets the end still succeeds when it has extracted a character,
  and a \<^verbatim>\<open>getline\<close> on a stream that is not good extracts nothing and fails.
\<close>

definition getline_ss :: "char \<Rightarrow> string option \<Rightarrow> string \<times> bool \<times> string option" where
  "getline_ss delim ss =
     (case ss of
        None \<Rightarrow> ([], False, None)
      | Some s \<Rightarrow>
          if delim \<in> set s
          then (takeWhile (\<lambda>c. c \<noteq> delim) s, True, Some (drop 1 (dropWhile (\<lambda>c. c \<noteq> delim) s)))
          else (s, s \<noteq> [], None))"

subsection \<open>The data of straw.h\<close>

record indexEntry =
  sizeE :: int
  position :: int

record contactRecord =
  binX :: int
  binY :: int
  counts :: "32 word"

record chromosome =
  name :: string
  index :: int
  lengthC :: int

subsection \<open>Header\<close>

text \<open>
  \<^verbatim>\<open>str[i]\<close> of a \<^verbatim>\<open>std::string\<close> is the terminating NUL at \<open>i = size\<close>; the
  conjunction of \<open>readMagicString\<close> stops at the first character that differs, so
  it never reads further than that.
\<close>

definition at :: "string \<Rightarrow> nat \<Rightarrow> char" where
  "at str i = (if i < length str then str ! i else CHR 0x00)"

definition readMagicString :: "string \<Rightarrow> bool \<times> string" where
  "readMagicString fin =
     (case getline (CHR 0x00) fin of (str, fin') \<Rightarrow>
        (at str 0 = CHR ''H'' \<and> at str 1 = CHR ''I'' \<and> at str 2 = CHR ''C'', fin'))"

fun readHeader_attributes :: "nat \<Rightarrow> string \<Rightarrow> string" where
  "readHeader_attributes 0 fin = fin"
| "readHeader_attributes (Suc n) fin =
     (case getline (CHR 0x00) fin of (key, fin1) \<Rightarrow>
      case getline (CHR 0x00) fin1 of (val, fin2) \<Rightarrow> readHeader_attributes n fin2)"

fun readHeader_chromosomes ::
  "nat \<Rightarrow> int \<Rightarrow> (string \<rightharpoonup> chromosome) \<Rightarrow> string \<Rightarrow> stop + ((string \<rightharpoonup> chromosome) \<times> string)" where
  "readHeader_chromosomes 0 i chromosomeMap fin = Inr (chromosomeMap, fin)"
| "readHeader_chromosomes (Suc n) i chromosomeMap fin =
     (case getline (CHR 0x00) fin of (nm, fin1) \<Rightarrow>
      bindR (read_int fin1) (\<lambda>(len, fin2).
        readHeader_chromosomes n (i + 1)
          (chromosomeMap(nm \<mapsto> \<lparr>name = nm, index = i, lengthC = len\<rparr>)) fin2))"

text \<open>
  \<open>readHeader\<close> gives the lines written to \<^verbatim>\<open>cerr\<close>, the chromosome map, \<open>master\<close>,
  the global \<open>version\<close> (its old value is the first argument) and the stream.
\<close>

definition readHeader ::
  "int \<Rightarrow> string \<Rightarrow> stop + (string list \<times> (string \<rightharpoonup> chromosome) \<times> int \<times> int \<times> string)" where
  "readHeader version fin =
     (case readMagicString fin of (ok, fin0) \<Rightarrow>
      if \<not> ok
      then Inr ([''Hi-C magic string is missing, does not appear to be a hic file''],
                Map.empty, - 1, version, fin0)
      else
        bindR (read_int fin0) (\<lambda>(version', fin1).
        if version' < 6
        then Inr ([''Version '' @ show_int version' @ '' no longer supported''],
                  Map.empty, - 1, version', fin1)
        else
          bindR (read_long fin1) (\<lambda>(master, fin2).
          case getline (CHR 0x00) fin2 of (genome, fin3) \<Rightarrow>
          bindR (read_int fin3) (\<lambda>(nattributes, fin4).
          bindR (read_int (readHeader_attributes (nat nattributes) fin4)) (\<lambda>(nChrs, fin5).
          bindR (readHeader_chromosomes (nat nChrs) 0 Map.empty fin5) (\<lambda>(chromosomeMap, fin6).
            Inr ([], chromosomeMap, master, version', fin6)))))))"

subsection \<open>Footer\<close>

text \<open>
  \<open>myFilePos\<close>, \<open>c1NormEntry\<close> and \<open>c2NormEntry\<close> are locals of the caller that
  \<open>readFooter\<close> assigns through references: \<open>None\<close> until assigned. The flags
  \<open>found\<close>, \<open>found1\<close> and \<open>found2\<close> of the source are set exactly where these
  are assigned, so each flag is that its variable is not \<open>None\<close>.
\<close>

fun readFooter_entries ::
  "nat \<Rightarrow> string \<Rightarrow> int option \<Rightarrow> string \<Rightarrow> stop + (int option \<times> string)" where
  "readFooter_entries 0 key myFilePos fin = Inr (myFilePos, fin)"
| "readFooter_entries (Suc n) key myFilePos fin =
     (case getline (CHR 0x00) fin of (str, fin1) \<Rightarrow>
      bindR (read_long fin1) (\<lambda>(fpos, fin2).
      bindR (read_int fin2) (\<lambda>(sizeinbytes, fin3).
        readFooter_entries n key (if str = key then Some fpos else myFilePos) fin3)))"

fun readFooter_values :: "nat \<Rightarrow> string \<Rightarrow> stop + string" where
  "readFooter_values 0 fin = Inr fin"
| "readFooter_values (Suc n) fin =
     bindR (read_double fin) (\<lambda>(v, fin1). readFooter_values n fin1)"

fun readFooter_factors :: "nat \<Rightarrow> string \<Rightarrow> stop + string" where
  "readFooter_factors 0 fin = Inr fin"
| "readFooter_factors (Suc n) fin =
     bindR (read_int fin) (\<lambda>(chrIdx, fin1).
     bindR (read_double fin1) (\<lambda>(v, fin2). readFooter_factors n fin2))"

text \<open>The two expected-value loops; only the second reads a type string first.\<close>

fun readFooter_expected :: "bool \<Rightarrow> nat \<Rightarrow> string \<Rightarrow> stop + string" where
  "readFooter_expected typed 0 fin = Inr fin"
| "readFooter_expected typed (Suc n) fin =
     (case getline (CHR 0x00) (if typed then snd (getline (CHR 0x00) fin) else fin) of
        (str, fin1) \<Rightarrow>
      bindR (read_int fin1) (\<lambda>(binSize, fin2).
      bindR (read_int fin2) (\<lambda>(nValues, fin3).
      bindR (readFooter_values (nat nValues) fin3) (\<lambda>fin4.
      bindR (read_int fin4) (\<lambda>(nNormalizationFactors, fin5).
      bindR (readFooter_factors (nat nNormalizationFactors) fin5) (\<lambda>fin6.
        readFooter_expected typed n fin6))))))"

fun readFooter_norms ::
  "nat \<Rightarrow> int \<Rightarrow> int \<Rightarrow> string \<Rightarrow> string \<Rightarrow> int \<Rightarrow> indexEntry option \<times> indexEntry option \<Rightarrow>
   string \<Rightarrow> stop + ((indexEntry option \<times> indexEntry option) \<times> string)" where
  "readFooter_norms 0 c1 c2 norm unit resolution entries fin = Inr (entries, fin)"
| "readFooter_norms (Suc n) c1 c2 norm unit resolution entries fin =
     (case getline (CHR 0x00) fin of (normtype, fin1) \<Rightarrow>
      bindR (read_int fin1) (\<lambda>(chrIdx, fin2).
      case getline (CHR 0x00) fin2 of (unit1, fin3) \<Rightarrow>
      bindR (read_int fin3) (\<lambda>(resolution1, fin4).
      bindR (read_long fin4) (\<lambda>(filePosition, fin5).
      bindR (read_int fin5) (\<lambda>(sizeInBytes, fin6).
        let e = \<lparr>sizeE = sizeInBytes, position = filePosition\<rparr>;
            c1NormEntry =
              (if chrIdx = c1 \<and> normtype = norm \<and> unit1 = unit \<and> resolution1 = resolution
               then Some e else fst entries);
            c2NormEntry =
              (if chrIdx = c2 \<and> normtype = norm \<and> unit1 = unit \<and> resolution1 = resolution
               then Some e else snd entries)
        in readFooter_norms n c1 c2 norm unit resolution (c1NormEntry, c2NormEntry) fin6)))))"

text \<open>
  \<open>readFooter\<close> gives the lines written to \<^verbatim>\<open>cerr\<close>, its \<^verbatim>\<open>bool\<close> result and the
  three variables it assigns.
\<close>

definition readFooter ::
  "string \<Rightarrow> int \<Rightarrow> int \<Rightarrow> int \<Rightarrow> string \<Rightarrow> string \<Rightarrow> int \<Rightarrow>
   stop + (string list \<times> bool \<times> int option \<times> indexEntry option \<times> indexEntry option)" where
  "readFooter fin master c1 c2 norm unit resolution =
     bindR (read_int fin) (\<lambda>(nBytes, fin1).
     let key = show_int c1 @ ''_'' @ show_int c2 in
     bindR (read_int fin1) (\<lambda>(nEntries, fin2).
     bindR (readFooter_entries (nat nEntries) key None fin2) (\<lambda>(myFilePos, fin3).
     if myFilePos = None
     then Inr ([''File doesn'' @ [CHR 0x27] @ ''t have the given chr_chr map '' @ key],
               False, None, None, None)
     else if norm = ''NONE'' then Inr ([], True, myFilePos, None, None)
     else
       bindR (read_int fin3) (\<lambda>(nExpectedValues, fin4).
       bindR (readFooter_expected False (nat nExpectedValues) fin4) (\<lambda>fin5.
       bindR (read_int fin5) (\<lambda>(nExpectedValues', fin6).
       bindR (readFooter_expected True (nat nExpectedValues') fin6) (\<lambda>fin7.
       bindR (read_int fin7) (\<lambda>(nEntries', fin8).
       bindR (readFooter_norms (nat nEntries') c1 c2 norm unit resolution (None, None) fin8)
         (\<lambda>((c1NormEntry, c2NormEntry), fin9).
           Inr (if c1NormEntry = None \<or> c2NormEntry = None
                then [''File did not contain '' @ norm @
                      '' normalization vectors for one or both chromosomes at '' @
                      show_int resolution @ '' '' @ unit]
                else [],
                True, myFilePos, c1NormEntry, c2NormEntry))))))))))"

subsection \<open>Matrix and zoom levels\<close>

text \<open>
  \<open>myBlockBinCount\<close> and \<open>myBlockColumnCount\<close> are locals of the caller assigned
  through references, together and only at a matching zoom level: one optional pair. A
  \<^verbatim>\<open>std::map<int, indexEntry>\<close> is a map.
\<close>

fun readMatrixZoomData_blocks ::
  "nat \<Rightarrow> bool \<Rightarrow> (int \<rightharpoonup> indexEntry) \<Rightarrow> string \<Rightarrow> stop + ((int \<rightharpoonup> indexEntry) \<times> string)" where
  "readMatrixZoomData_blocks 0 found blockMap fin = Inr (blockMap, fin)"
| "readMatrixZoomData_blocks (Suc n) found blockMap fin =
     bindR (read_int fin) (\<lambda>(blockNumber, fin1).
     bindR (read_long fin1) (\<lambda>(filePosition, fin2).
     bindR (read_int fin2) (\<lambda>(blockSizeInBytes, fin3).
       let entry = \<lparr>sizeE = blockSizeInBytes, position = filePosition\<rparr>
       in readMatrixZoomData_blocks n found
            (if found then blockMap(blockNumber \<mapsto> entry) else blockMap) fin3)))"

definition readMatrixZoomData ::
  "string \<Rightarrow> string \<Rightarrow> int \<Rightarrow> (int \<times> int) option \<Rightarrow>
   stop + ((int \<rightharpoonup> indexEntry) \<times> (int \<times> int) option \<times> bool \<times> string)" where
  "readMatrixZoomData fin myunit mybinsize myBlockCounts =
     (case getline (CHR 0x00) fin of (unit, fin1) \<Rightarrow>
      bindR (read_int fin1) (\<lambda>(tmp, fin2).
      bindR (read_float fin2) (\<lambda>(sumCounts, fin3).
      bindR (read_float fin3) (\<lambda>(occupiedCellCount, fin4).
      bindR (read_float fin4) (\<lambda>(stdDev, fin5).
      bindR (read_float fin5) (\<lambda>(percent95, fin6).
      bindR (read_int fin6) (\<lambda>(binSize, fin7).
      bindR (read_int fin7) (\<lambda>(blockBinCount, fin8).
      bindR (read_int fin8) (\<lambda>(blockColumnCount, fin9).
        let found = (myunit = unit \<and> mybinsize = binSize) in
        bindR (read_int fin9) (\<lambda>(nBlocks, fin10).
        bindR (readMatrixZoomData_blocks (nat nBlocks) found Map.empty fin10) (\<lambda>(blockMap, fin11).
          Inr (blockMap,
               if found then Some (blockBinCount, blockColumnCount) else myBlockCounts,
               found, fin11))))))))))))"

text \<open>The loop \<^verbatim>\<open>while (i < nRes && !found)\<close>, by the number of levels left.\<close>

fun readMatrix_levels ::
  "nat \<Rightarrow> string \<Rightarrow> int \<Rightarrow> (int \<rightharpoonup> indexEntry) \<times> (int \<times> int) option \<times> bool \<times> string \<Rightarrow>
   stop + ((int \<rightharpoonup> indexEntry) \<times> (int \<times> int) option \<times> bool \<times> string)" where
  "readMatrix_levels 0 unit resolution st = Inr st"
| "readMatrix_levels (Suc n) unit resolution st =
     (case st of (blockMap, myBlockCounts, found, fin) \<Rightarrow>
        if found then Inr st
        else bindR (readMatrixZoomData fin unit resolution myBlockCounts)
               (readMatrix_levels n unit resolution))"

definition readMatrix ::
  "string \<Rightarrow> int \<Rightarrow> string \<Rightarrow> int \<Rightarrow>
   stop + (string list \<times> (int \<rightharpoonup> indexEntry) \<times> (int \<times> int) option)" where
  "readMatrix file myFilePosition unit resolution =
     bindR (seekg file myFilePosition) (\<lambda>fin.
     bindR (read_int fin) (\<lambda>(c1, fin1).
     bindR (read_int fin1) (\<lambda>(c2, fin2).
     bindR (read_int fin2) (\<lambda>(nRes, fin3).
     bindR (readMatrix_levels (nat nRes) unit resolution (Map.empty, None, False, fin3))
       (\<lambda>(blockMap, myBlockCounts, found, fin4).
         Inr (if \<not> found then [''Error finding block data''] else [],
              blockMap, myBlockCounts))))))"

subsection \<open>Blocks\<close>

text \<open>
  A \<^verbatim>\<open>short\<close> converts to \<^verbatim>\<open>float\<close> exactly; \<open>float_of_short\<close> is the bit pattern of
  the result. \<open>isnan\<close> holds of the patterns with all exponent bits set and a mantissa
  that is not zero.
\<close>

fun ilog2 :: "nat \<Rightarrow> nat" where
  "ilog2 n = (if n < 2 then 0 else Suc (ilog2 (n div 2)))"

declare ilog2.simps [simp del]

definition float_of_short :: "int \<Rightarrow> 32 word" where
  "float_of_short c =
     (if c = 0 then 0
      else let a = nat \<bar>c\<bar>; e = ilog2 a
           in word_of_nat ((if c < 0 then 2 ^ 31 else 0) + (127 + e) * 2 ^ 23 +
                           (a - 2 ^ e) * 2 ^ (23 - e)))"

definition isnan :: "32 word \<Rightarrow> bool" where
  "isnan x = (x AND 0x7F800000 = 0x7F800000 \<and> x AND 0x007FFFFF \<noteq> 0)"

text \<open>
  \<^verbatim>\<open>vector<contactRecord> v(nRecords)\<close> holds \<open>nRecords\<close> value-initialised records.
  \<^verbatim>\<open>v[index] = record\<close> writes inside the vector or is undefined.
\<close>

definition zero_record :: contactRecord where
  "zero_record = \<lparr>binX = 0, binY = 0, counts = 0\<rparr>"

definition store :: "contactRecord list \<Rightarrow> nat \<Rightarrow> contactRecord \<Rightarrow> stop + contactRecord list" where
  "store v i record = (if i < length v then Inr (v[i := record]) else Inl IndexOutOfRange)"

text \<open>Version below 7: \<open>nRecords\<close> triples, the \<open>i\<close>-th stored at \<open>v[i]\<close>.\<close>

fun readBlock_triples ::
  "nat \<Rightarrow> nat \<Rightarrow> contactRecord list \<Rightarrow> string \<Rightarrow> stop + contactRecord list" where
  "readBlock_triples 0 i v bufferin = Inr v"
| "readBlock_triples (Suc n) i v bufferin =
     bindR (read_int bufferin) (\<lambda>(bX, b1).
     bindR (read_int b1) (\<lambda>(bY, b2).
     bindR (read_float b2) (\<lambda>(cnt, b3).
     bindR (store v i \<lparr>binX = bX, binY = bY, counts = cnt\<rparr>) (\<lambda>v'.
       readBlock_triples n (i + 1) v' b3))))"

text \<open>Type 1, the columns of one row and the rows; the state is \<open>v\<close> and \<open>index\<close> (here \<open>ix\<close>).\<close>

fun readBlock_cols ::
  "nat \<Rightarrow> int \<Rightarrow> int \<Rightarrow> int \<Rightarrow> contactRecord list \<times> nat \<Rightarrow> string \<Rightarrow>
   stop + ((contactRecord list \<times> nat) \<times> string)" where
  "readBlock_cols 0 binXOffset bY useShort st bufferin = Inr (st, bufferin)"
| "readBlock_cols (Suc n) binXOffset bY useShort st bufferin =
     (case st of (v, ix) \<Rightarrow>
      bindR (read_short bufferin) (\<lambda>(x, b1).
      bindR (if useShort = 0
             then bindR (read_short b1) (\<lambda>(c, b2). Inr (float_of_short c, b2))
             else read_float b1) (\<lambda>(cnt, b2).
      bindR (store v ix \<lparr>binX = binXOffset + x, binY = bY, counts = cnt\<rparr>) (\<lambda>v'.
        readBlock_cols n binXOffset bY useShort (v', ix + 1) b2))))"

fun readBlock_rows ::
  "nat \<Rightarrow> int \<Rightarrow> int \<Rightarrow> int \<Rightarrow> contactRecord list \<times> nat \<Rightarrow> string \<Rightarrow>
   stop + ((contactRecord list \<times> nat) \<times> string)" where
  "readBlock_rows 0 binXOffset binYOffset useShort st bufferin = Inr (st, bufferin)"
| "readBlock_rows (Suc n) binXOffset binYOffset useShort st bufferin =
     bindR (read_short bufferin) (\<lambda>(y, b1).
     bindR (read_short b1) (\<lambda>(colCount, b2).
     bindR (readBlock_cols (nat colCount) binXOffset (y + binYOffset) useShort st b2)
       (\<lambda>(st', b3). readBlock_rows n binXOffset binYOffset useShort st' b3)))"

text \<open>
  Type 2: the cell \<open>i\<close> of \<open>nPts\<close> lies in row \<open>i / w\<close>; a \<^verbatim>\<open>short\<close> count of
  \<open>-32768\<close> and a \<^verbatim>\<open>float\<close> count that is NaN store nothing and leave \<open>index\<close>
  as it is.
\<close>

fun readBlock_points ::
  "nat \<Rightarrow> int \<Rightarrow> int \<Rightarrow> int \<Rightarrow> int \<Rightarrow> int \<Rightarrow> contactRecord list \<times> nat \<Rightarrow> string \<Rightarrow>
   stop + ((contactRecord list \<times> nat) \<times> string)" where
  "readBlock_points 0 i w binXOffset binYOffset useShort st bufferin = Inr (st, bufferin)"
| "readBlock_points (Suc n) i w binXOffset binYOffset useShort st bufferin =
     (case st of (v, ix) \<Rightarrow>
      if w = 0 then Inl DivisionByZero
      else
        let row = i sdiv w;
            col = i - row * w;
            bin1 = binXOffset + col;
            bin2 = binYOffset + row
        in if useShort = 0
           then bindR (read_short bufferin) (\<lambda>(c, b1).
                  if c \<noteq> - 32768
                  then bindR (store v ix \<lparr>binX = bin1, binY = bin2, counts = float_of_short c\<rparr>)
                         (\<lambda>v'. readBlock_points n (i + 1) w binXOffset binYOffset useShort
                                 (v', ix + 1) b1)
                  else readBlock_points n (i + 1) w binXOffset binYOffset useShort (v, ix) b1)
           else bindR (read_float bufferin) (\<lambda>(cnt, b1).
                  if \<not> isnan cnt
                  then bindR (store v ix \<lparr>binX = bin1, binY = bin2, counts = cnt\<rparr>)
                         (\<lambda>v'. readBlock_points n (i + 1) w binXOffset binYOffset useShort
                                 (v', ix + 1) b1)
                  else readBlock_points n (i + 1) w binXOffset binYOffset useShort (v, ix) b1))"

text \<open>
  The inflated payload of a block. \<open>inflate\<close> stands for zlib: the bytes it writes for
  the compressed bytes when the output has room for all of them. The source gives it
  room for ten times the compressed size, takes what was written and does not look at
  the return code.
\<close>

definition inflated :: "(string \<Rightarrow> string) \<Rightarrow> string \<Rightarrow> indexEntry \<Rightarrow> stop + string" where
  "inflated inflate file idx =
     (if sizeE idx < 0 then Inl (Throws bad_array_new_length)
      else bindR (seekg file (position idx)) (\<lambda>fin.
           bindR (read (nat (sizeE idx)) fin) (\<lambda>(compressedBytes, fin').
             Inr (take (nat (sizeE idx * 10)) (inflate compressedBytes)))))"

definition readBlock ::
  "(string \<Rightarrow> string) \<Rightarrow> int \<Rightarrow> string \<Rightarrow> indexEntry \<Rightarrow> stop + contactRecord list" where
  "readBlock inflate version file idx =
     (if sizeE idx = 0 then Inr []
      else
        bindR (inflated inflate file idx) (\<lambda>bufferin.
        bindR (read_int bufferin) (\<lambda>(nRecords, b1).
        if nRecords < 0 then Inl (Throws length_error)
        else
          let v = replicate (nat nRecords) zero_record in
          if version < 7 then readBlock_triples (nat nRecords) 0 v b1
          else
            bindR (read_int b1) (\<lambda>(binXOffset, b2).
            bindR (read_int b2) (\<lambda>(binYOffset, b3).
            bindR (read_char b3) (\<lambda>(useShort, b4).
            bindR (read_char b4) (\<lambda>(type, b5).
              if type = 1
              then bindR (read_short b5) (\<lambda>(rowCount, b6).
                   bindR (readBlock_rows (nat rowCount) binXOffset binYOffset useShort (v, 0) b6)
                     (\<lambda>((v', ix), b7). Inr v'))
              else if type = 2
              then bindR (read_int b5) (\<lambda>(nPts, b6).
                   bindR (read_short b6) (\<lambda>(w, b7).
                   bindR (readBlock_points (nat nPts) 0 w binXOffset binYOffset useShort (v, 0) b7)
                     (\<lambda>((v', ix), b8). Inr v')))
              else Inr v)))))))"

definition readSize :: "(string \<Rightarrow> string) \<Rightarrow> string \<Rightarrow> indexEntry \<Rightarrow> stop + int" where
  "readSize inflate file idx =
     (if sizeE idx = 0 then Inr 0
      else
        bindR (inflated inflate file idx) (\<lambda>bufferin.
        bindR (read_int bufferin) (\<lambda>(nRecords, b1). Inr nRecords)))"

subsection \<open>Normalization vectors\<close>

fun readNormalizationVector_values :: "nat \<Rightarrow> string \<Rightarrow> stop + 64 word list" where
  "readNormalizationVector_values 0 bufferin = Inr []"
| "readNormalizationVector_values (Suc n) bufferin =
     bindR (read_double bufferin) (\<lambda>(d, b1).
     bindR (readNormalizationVector_values n b1) (\<lambda>vs. Inr (d # vs)))"

definition readNormalizationVector :: "string \<Rightarrow> stop + 64 word list" where
  "readNormalizationVector bufferin =
     bindR (read_int bufferin) (\<lambda>(nValues, b1).
       if nValues < 0 then Inl (Throws length_error)
       else readNormalizationVector_values (nat nValues) b1)"

subsection \<open>Block selection\<close>

text \<open>
  \<^verbatim>\<open>std::set<int>\<close> is a sorted container without duplicates that is iterated in
  increasing order: it is a sorted duplicate-free list, and \<^verbatim>\<open>insert\<close> is
  \<^const>\<open>insort_insert_key\<close> on the identity key. The four \<^verbatim>\<open>regionIndices\<close> are a
  quadruple.
\<close>

definition insert_blocks :: "int \<Rightarrow> int list \<Rightarrow> int list \<Rightarrow> int list \<Rightarrow> int list" where
  "insert_blocks blockColumnCount rs cs blocksSet =
     fold (\<lambda>r s. fold (\<lambda>c s'. insort_insert (r * blockColumnCount + c) s') cs s) rs blocksSet"

definition getBlockNumbersForRegionFromBinPosition ::
  "int \<times> int \<times> int \<times> int \<Rightarrow> int \<Rightarrow> int \<Rightarrow> bool \<Rightarrow> int list" where
  "getBlockNumbersForRegionFromBinPosition regionIndices blockBinCount blockColumnCount intra =
     (case regionIndices of (ri0, ri1, ri2, ri3) \<Rightarrow>
        let col1 = ri0 sdiv blockBinCount;
            col2 = (ri1 + 1) sdiv blockBinCount;
            row1 = ri2 sdiv blockBinCount;
            row2 = (ri3 + 1) sdiv blockBinCount;
            blocksSet = insert_blocks blockColumnCount [row1..row2] [col1..col2] []
        in if intra then insert_blocks blockColumnCount [col1..col2] [row1..row2] blocksSet
           else blocksSet)"

subsection \<open>The query: straw and getSize\<close>

text \<open>
  What a query takes from outside the source file: the local files that can be opened,
  with their contents; zlib; the arithmetic \<^verbatim>\<open>c / (a * b)\<close> on a \<^verbatim>\<open>float\<close> and two
  \<^verbatim>\<open>double\<close>s with the result stored in a \<^verbatim>\<open>float\<close>; and the value of the global
  \<open>version\<close> when the query starts.
\<close>

record platform =
  files :: "string \<Rightarrow> string option"
  inflate :: "string \<Rightarrow> string"
  normalise :: "32 word \<Rightarrow> 64 word \<Rightarrow> 64 word \<Rightarrow> 32 word"
  version0 :: int

text \<open>
  Lines 769 to 776 and 785 to 792: the two positions of a region string after its name,
  or the whole chromosome.
\<close>

definition positions :: "string option \<Rightarrow> chromosome \<Rightarrow> stop + (int \<times> int)" where
  "positions ss chr =
     (case getline_ss (CHR '':'') ss of (x, okx, ss1) \<Rightarrow>
      case getline_ss (CHR '':'') ss1 of (y, oky, ss2) \<Rightarrow>
        if okx \<and> oky
        then bindR (stoi x) (\<lambda>pos1. bindR (stoi y) (\<lambda>pos2. Inr (pos1, pos2)))
        else Inr (0, lengthC chr))"

text \<open>
  Lines 848 to 876, for one of the two vectors: the bytes of the index entry are read
  into a buffer of their own, and the vector is decoded from that buffer.
\<close>

definition load_norm :: "string \<Rightarrow> indexEntry option \<Rightarrow> stop + 64 word list" where
  "load_norm file entry =
     (case entry of
        None \<Rightarrow> Inl Uninitialised
      | Some e \<Rightarrow>
          if sizeE e < 0 then Inl (Throws bad_array_new_length)
          else bindR (seekg file (position e)) (\<lambda>fin.
               bindR (read (nat (sizeE e)) fin) (\<lambda>(buffer, fin').
                 readNormalizationVector buffer)))"

text \<open>
  \<open>straw\<close> (lines 713 to 890) and \<open>getSize\<close> (lines 931 to 1097) begin with the
  same statements and differ only in the value they return early, an empty vector or
  \<open>0\<close>. \<open>query_setup\<close> is that common part, in two steps. \<open>query_regions\<close> is
  lines 713 to 819: the unit, the file and its header, the two region strings and their
  order. \<open>query_blocks\<close> is lines 821 to 890: the footer, the normalization vectors,
  the matrix and the block numbers. A step ends either with the lines written to
  \<^verbatim>\<open>cerr\<close> before an early return, or with what the next step needs.
\<close>

datatype 'a step = Reported "string list" | Ready 'a

record regions =
  r_cerr :: "string list"
  r_file :: string
  r_version :: int
  r_master :: int
  r_c1 :: int
  r_c2 :: int
  r_origRegionIndices :: "int \<times> int \<times> int \<times> int"
  r_regionIndices :: "int \<times> int \<times> int \<times> int"

record query =
  q_cerr :: "string list"
  q_version :: int
  q_file :: string
  q_origRegionIndices :: "int \<times> int \<times> int \<times> int"
  q_intra :: bool
  q_c1Norm :: "64 word list"
  q_c2Norm :: "64 word list"
  q_blockMap :: "int \<rightharpoonup> indexEntry"
  q_blockNumbers :: "int list"

definition usage :: string where
  "usage = ''Usage: straw <NONE/VC/VC_SQRT/KR> <hicFile(s)> <chr1>[:x1:x2] <chr2>[:y1:y2] <BP/FRAG> <binsize>''"

definition query_regions ::
  "platform \<Rightarrow> string \<Rightarrow> string \<Rightarrow> string \<Rightarrow> string \<Rightarrow> int \<Rightarrow> stop + regions step" where
  "query_regions P fname chr1loc chr2loc unit binsize =
     (if \<not> (unit = ''BP'' \<or> unit = ''FRAG'')
      then Inr (Reported [''Norm specified incorrectly, must be one of <BP/FRAG>'', usage])
      else if take 4 fname = ''http'' then Inl HttpSource
      else
        case files P fname of
          None \<Rightarrow> Inr (Reported [''File '' @ fname @ '' cannot be opened for reading''])
        | Some file \<Rightarrow>
        bindR (readHeader (version0 P) file) (\<lambda>(cerr1, chromosomeMap, master, version, fin).
        case getline_ss (CHR '':'') (Some chr1loc) of (chr1, ok1, ss) \<Rightarrow>
        (case chromosomeMap chr1 of
          None \<Rightarrow> Inr (Reported (cerr1 @ [chr1 @ '' not found in the file.'']))
        | Some chrom1 \<Rightarrow>
        bindR (positions ss chrom1) (\<lambda>(c1pos1, c1pos2).
        case getline_ss (CHR '':'') (Some chr2loc) of (chr2, ok2, ss1) \<Rightarrow>
        (case chromosomeMap chr2 of
          None \<Rightarrow> Inr (Reported (cerr1 @ [chr2 @ '' not found in the file.'']))
        | Some chrom2 \<Rightarrow>
        bindR (positions ss1 chrom2) (\<lambda>(c2pos1, c2pos2).
        let c1 = min (index chrom1) (index chrom2);
            c2 = max (index chrom1) (index chrom2);
            origRegionIndices =
              (if index chrom1 > index chrom2 then (c2pos1, c2pos2, c1pos1, c1pos2)
               else (c1pos1, c1pos2, c2pos1, c2pos2))
        in
        if binsize = 0 then Inl DivisionByZero
        else
          Inr (Ready \<lparr>r_cerr = cerr1,
                      r_file = file,
                      r_version = version,
                      r_master = master,
                      r_c1 = c1,
                      r_c2 = c2,
                      r_origRegionIndices = origRegionIndices,
                      r_regionIndices =
                        (case origRegionIndices of (o0, o1, o2, o3) \<Rightarrow>
                           (o0 sdiv binsize, o1 sdiv binsize,
                            o2 sdiv binsize, o3 sdiv binsize))\<rparr>)))))))"

definition query_blocks :: "string \<Rightarrow> string \<Rightarrow> int \<Rightarrow> regions \<Rightarrow> stop + query step" where
  "query_blocks norm unit binsize r =
     bindR (seekg (r_file r) (r_master r)) (\<lambda>fin1.
     bindR (readFooter fin1 (r_master r) (r_c1 r) (r_c2 r) norm unit binsize)
       (\<lambda>(cerr2, foundFooter, myFilePos, c1NormEntry, c2NormEntry).
     if \<not> foundFooter then Inr (Reported (r_cerr r @ cerr2))
     else
     bindR (if norm \<noteq> ''NONE''
            then bindR (load_norm (r_file r) c1NormEntry) (\<lambda>c1Norm.
                 bindR (load_norm (r_file r) c2NormEntry) (\<lambda>c2Norm. Inr (c1Norm, c2Norm)))
            else Inr ([], [])) (\<lambda>(c1Norm, c2Norm).
     case myFilePos of
       None \<Rightarrow> Inl Uninitialised
     | Some myFilePos' \<Rightarrow>
     bindR (readMatrix (r_file r) myFilePos' unit binsize) (\<lambda>(cerr3, blockMap, myBlockCounts).
     case myBlockCounts of
       None \<Rightarrow> Inl Uninitialised
     | Some (blockBinCount, blockColumnCount) \<Rightarrow>
     if blockBinCount = 0 then Inl DivisionByZero
     else
       Inr (Ready \<lparr>q_cerr = r_cerr r @ cerr2 @ cerr3,
                   q_version = r_version r,
                   q_file = r_file r,
                   q_origRegionIndices = r_origRegionIndices r,
                   q_intra = (r_c1 r = r_c2 r),
                   q_c1Norm = c1Norm,
                   q_c2Norm = c2Norm,
                   q_blockMap = blockMap,
                   q_blockNumbers =
                     getBlockNumbersForRegionFromBinPosition (r_regionIndices r)
                       blockBinCount blockColumnCount (r_c1 r = r_c2 r)\<rparr>)))))"

definition query_setup ::
  "platform \<Rightarrow> string \<Rightarrow> string \<Rightarrow> string \<Rightarrow> string \<Rightarrow> string \<Rightarrow> int \<Rightarrow> stop + query step" where
  "query_setup P norm fname chr1loc chr2loc unit binsize =
     bindR (query_regions P fname chr1loc chr2loc unit binsize) (\<lambda>s.
       case s of
         Reported lines \<Rightarrow> Inr (Reported lines)
       | Ready r \<Rightarrow> query_blocks norm unit binsize r)"

text \<open>The body of the loop over the records of a block, lines 899 to 918.\<close>

definition subscript :: "'a list \<Rightarrow> int \<Rightarrow> stop + 'a" where
  "subscript xs i = (if 0 \<le> i \<and> nat i < length xs then Inr (xs ! nat i) else Inl IndexOutOfRange)"

definition straw_record ::
  "platform \<Rightarrow> string \<Rightarrow> int \<Rightarrow> query \<Rightarrow> contactRecord \<Rightarrow> contactRecord list \<Rightarrow>
   stop + contactRecord list" where
  "straw_record P norm binsize q rec records =
     (let x = binX rec * binsize;
          y = binY rec * binsize
      in
      bindR (if norm \<noteq> ''NONE''
             then bindR (subscript (q_c1Norm q) (binX rec)) (\<lambda>n1.
                  bindR (subscript (q_c2Norm q) (binY rec)) (\<lambda>n2.
                    Inr (normalise P (counts rec) n1 n2)))
             else Inr (counts rec)) (\<lambda>c.
      case q_origRegionIndices q of (o0, o1, o2, o3) \<Rightarrow>
        if (x \<ge> o0 \<and> x \<le> o1 \<and> y \<ge> o2 \<and> y \<le> o3) \<or>
           (q_intra q \<and> y \<ge> o0 \<and> y \<le> o1 \<and> x \<ge> o2 \<and> x \<le> o3)
        then Inr (records @ [\<lparr>binX = x, binY = y, counts = c\<rparr>])
        else Inr records))"

fun straw_records ::
  "platform \<Rightarrow> string \<Rightarrow> int \<Rightarrow> query \<Rightarrow> contactRecord list \<Rightarrow> contactRecord list \<Rightarrow>
   stop + contactRecord list" where
  "straw_records P norm binsize q [] records = Inr records"
| "straw_records P norm binsize q (rec # tmp_records) records =
     bindR (straw_record P norm binsize q rec records)
       (straw_records P norm binsize q tmp_records)"

text \<open>\<^verbatim>\<open>blockMap[*it]\<close> gives a value-initialised entry for a block that is not in the map.\<close>

definition block_entry :: "(int \<rightharpoonup> indexEntry) \<Rightarrow> int \<Rightarrow> indexEntry" where
  "block_entry blockMap b =
     (case blockMap b of None \<Rightarrow> \<lparr>sizeE = 0, position = 0\<rparr> | Some e \<Rightarrow> e)"

fun straw_blocks ::
  "platform \<Rightarrow> string \<Rightarrow> int \<Rightarrow> query \<Rightarrow> int list \<Rightarrow> contactRecord list \<Rightarrow>
   stop + contactRecord list" where
  "straw_blocks P norm binsize q [] records = Inr records"
| "straw_blocks P norm binsize q (b # bs) records =
     bindR (readBlock (inflate P) (q_version q) (q_file q) (block_entry (q_blockMap q) b))
       (\<lambda>tmp_records.
     bindR (straw_records P norm binsize q tmp_records records)
       (straw_blocks P norm binsize q bs))"

text \<open>A query gives the lines written to \<^verbatim>\<open>cerr\<close> and the value returned.\<close>

definition straw ::
  "platform \<Rightarrow> string \<Rightarrow> string \<Rightarrow> string \<Rightarrow> string \<Rightarrow> string \<Rightarrow> int \<Rightarrow>
   stop + (string list \<times> contactRecord list)" where
  "straw P norm fname chr1loc chr2loc unit binsize =
     bindR (query_setup P norm fname chr1loc chr2loc unit binsize) (\<lambda>s.
       case s of
         Reported lines \<Rightarrow> Inr (lines, [])
       | Ready q \<Rightarrow>
           bindR (straw_blocks P norm binsize q (q_blockNumbers q) [])
             (\<lambda>records. Inr (q_cerr q, records)))"

fun getSize_blocks :: "platform \<Rightarrow> query \<Rightarrow> int list \<Rightarrow> int \<Rightarrow> stop + int" where
  "getSize_blocks P q [] count = Inr count"
| "getSize_blocks P q (b # bs) count =
     bindR (readSize (inflate P) (q_file q) (block_entry (q_blockMap q) b))
       (\<lambda>n. getSize_blocks P q bs (count + n))"

definition getSize ::
  "platform \<Rightarrow> string \<Rightarrow> string \<Rightarrow> string \<Rightarrow> string \<Rightarrow> string \<Rightarrow> int \<Rightarrow> stop + (string list \<times> int)" where
  "getSize P norm fname chr1loc chr2loc unit binsize =
     bindR (query_setup P norm fname chr1loc chr2loc unit binsize) (\<lambda>s.
       case s of
         Reported lines \<Rightarrow> Inr (lines, 0)
       | Ready q \<Rightarrow>
           bindR (getSize_blocks P q (q_blockNumbers q) 0)
             (\<lambda>count. Inr (q_cerr q, count)))"

subsection \<open>Writing files\<close>

text \<open>
  The encodings that the readers above decode, to write down concrete files and the
  files that hold a given list of entries: little-endian two's complement integers and
  NUL-terminated strings.
\<close>

fun le_bytes :: "nat \<Rightarrow> nat \<Rightarrow> string" where
  "le_bytes 0 v = []"
| "le_bytes (Suc n) v = char_of (v mod 256) # le_bytes n (v div 256)"

definition enc_char :: "int \<Rightarrow> string" where
  "enc_char i = le_bytes 1 (nat (i mod 2 ^ 8))"

definition enc_short :: "int \<Rightarrow> string" where
  "enc_short i = le_bytes 2 (nat (i mod 2 ^ 16))"

definition enc_int :: "int \<Rightarrow> string" where
  "enc_int i = le_bytes 4 (nat (i mod 2 ^ 32))"

definition enc_long :: "int \<Rightarrow> string" where
  "enc_long i = le_bytes 8 (nat (i mod 2 ^ 64))"

definition enc_float :: "32 word \<Rightarrow> string" where
  "enc_float x = le_bytes 4 (unat x)"

definition enc_double :: "64 word \<Rightarrow> string" where
  "enc_double x = le_bytes 8 (unat x)"

definition cstr :: "string \<Rightarrow> string" where
  "cstr str = str @ [CHR 0x00]"





text \<open>
  A zlib stream that holds its payload in one stored deflate block (RFC 1950 and
  RFC 1951): the two header bytes \<open>0x78 0x01\<close>, the block header \<open>0x01\<close>, the length
  of the payload and its complement in 16 bits each, the payload, and its Adler-32
  checksum with the high byte first. \<open>inflate_stored\<close> is what zlib writes for such a
  stream.
\<close>

definition deflate_stored :: "string \<Rightarrow> nat \<Rightarrow> string" where
  "deflate_stored payload adler =
     [CHR 0x78, CHR 0x01, CHR 0x01] @ le_bytes 2 (length payload) @
     le_bytes 2 (65535 - length payload) @ payload @ rev (le_bytes 4 adler)"

definition inflate_stored :: "string \<Rightarrow> string" where
  "inflate_stored z = take (le_nat (take 2 (drop 3 z))) (drop 7 z)"

subsection \<open>Dense blocks as the format describes them\<close>











subsection \<open>A small file\<close>

text \<open>
  A version 8 file of 298 bytes with the chromosomes \<open>1\<close> and \<open>2\<close> (indices 0 and 1,
  1000 base pairs each), one matrix for the pair at offset 38 with one zoom level
  (\<open>BP\<close>, bins of 100, blocks of 16 bins, one block column), its one block at offset 105
  and the footer at offset 236. The block is of type 1 with \<^verbatim>\<open>short\<close> counts and holds
  the records \<open>(1, 2, 5)\<close> and \<open>(7, 2, 3)\<close>. The footer has no expected values and one
  normalization vector, \<open>VC\<close> for chromosome 0, at offset 144: eleven times \<open>1.0\<close>.
\<close>

definition ex_payload :: string where
  "ex_payload =
     enc_int 2 @ enc_int 0 @ enc_int 0 @ enc_char 0 @ enc_char 1 @ enc_short 1 @
     enc_short 2 @ enc_short 2 @ enc_short 1 @ enc_short 5 @ enc_short 7 @ enc_short 3"

definition ex_header :: string where
  "ex_header =
     cstr ''HIC'' @ enc_int 8 @ enc_long 236 @ cstr ''g'' @ enc_int 0 @ enc_int 2 @
     cstr ''1'' @ enc_int 1000 @ cstr ''2'' @ enc_int 1000"

definition ex_matrix :: string where
  "ex_matrix =
     enc_int 0 @ enc_int 1 @ enc_int 1 @
     cstr ''BP'' @ enc_int 0 @ enc_float 0 @ enc_float 0 @ enc_float 0 @ enc_float 0 @
     enc_int 100 @ enc_int 16 @ enc_int 1 @ enc_int 1 @
     enc_int 0 @ enc_long 105 @ enc_int 39"

definition ex_norm :: string where
  "ex_norm = enc_int 11 @ concat (replicate 11 (enc_double 0x3FF0000000000000))"

definition ex_norm_index :: string where
  "ex_norm_index =
     enc_int 0 @ enc_int 0 @ enc_int 1 @
     cstr ''VC'' @ enc_int 0 @ cstr ''BP'' @ enc_int 100 @ enc_long 144 @ enc_int 92"

definition ex_footer :: string where
  "ex_footer =
     enc_int 58 @ enc_int 1 @ cstr ''0_1'' @ enc_long 38 @ enc_int 67 @ ex_norm_index"

definition ex_file :: string where
  "ex_file = ex_header @ ex_matrix @ deflate_stored ex_payload 15007769 @ ex_norm @ ex_footer"

text \<open>
  A platform with that file under the name \<open>ex.hic\<close>, a text file \<open>notes.txt\<close>
  and no other file. Its \<open>normalise\<close> is a stand-in that returns the count as it is.
\<close>

definition ex_platform :: platform where
  "ex_platform =
     \<lparr>files = (\<lambda>f. if f = ''ex.hic'' then Some ex_file
                    else if f = ''notes.txt'' then Some ''not a hic file''
                    else None),
      inflate = inflate_stored,
      normalise = (\<lambda>c a b. c),
      version0 = 0\<rparr>"

subsection \<open>The requested region\<close>

text \<open>
  What the specification asks of a returned pair of coordinates, for the region
  \<open>origRegion\<close> of a query: \<open>origRegion[0] \<le> x \<le> origRegion[1]\<close> and
  \<open>origRegion[2] \<le> y \<le> origRegion[3]\<close>, or, for a query within one chromosome, the
  same with \<open>x\<close> and \<open>y\<close> exchanged.
\<close>

definition spec_in_region :: "int \<times> int \<times> int \<times> int \<Rightarrow> bool \<Rightarrow> int \<Rightarrow> int \<Rightarrow> bool" where
  "spec_in_region origRegion intra x y =
     (case origRegion of (o0, o1, o2, o3) \<Rightarrow>
        (o0 \<le> x \<and> x \<le> o1 \<and> o2 \<le> y \<and> y \<le> o3) \<or>
        (intra \<and> o0 \<le> y \<and> y \<le> o1 \<and> o2 \<le> x \<and> x \<le> o3))"

text \<open>The region with its two ranges exchanged.\<close>

definition exchanged :: "int \<times> int \<times> int \<times> int \<Rightarrow> int \<times> int \<times> int \<times> int" where
  "exchanged region = (case region of (o0, o1, o2, o3) \<Rightarrow> (o2, o3, o0, o1))"


section \<open>Properties\<close>

subsection \<open>Block selection\<close>

lemma set_fold_insort_insert:
  "set (fold (\<lambda>c s'. insort_insert (f c) s') cs s) = f ` set cs \<union> set s"
  by (induction cs arbitrary: s) (auto simp: set_insort_insert)

lemma sorted_fold_insort_insert:
  "sorted s \<Longrightarrow> sorted (fold (\<lambda>c s'. insort_insert (f c) s') cs s)"
  by (induction cs arbitrary: s) (auto simp: sorted_insort_insert)

lemma distinct_fold_insort_insert:
  "distinct s \<Longrightarrow> distinct (fold (\<lambda>c s'. insort_insert (f c) s') cs s)"
  by (induction cs arbitrary: s) (auto simp: distinct_insort_insert)

lemma set_insert_blocks:
  "set (insert_blocks n rs cs s) = {r * n + c | r c. r \<in> set rs \<and> c \<in> set cs} \<union> set s"
  unfolding insert_blocks_def
  by (induction rs arbitrary: s) (auto simp: set_fold_insort_insert)

lemma sorted_insert_blocks: "sorted s \<Longrightarrow> sorted (insert_blocks n rs cs s)"
  unfolding insert_blocks_def
  by (induction rs arbitrary: s) (auto simp: sorted_fold_insort_insert)

lemma distinct_insert_blocks: "distinct s \<Longrightarrow> distinct (insert_blocks n rs cs s)"
  unfolding insert_blocks_def
  by (induction rs arbitrary: s) (auto simp: distinct_fold_insort_insert)

lemma sorted_distinct_getBlockNumbers:
  "sorted (getBlockNumbersForRegionFromBinPosition ri bbc bcc intra) \<and>
   distinct (getBlockNumbersForRegionFromBinPosition ri bbc bcc intra)"
  by (cases ri)
     (simp add: getBlockNumbersForRegionFromBinPosition_def Let_def
        sorted_insert_blocks distinct_insert_blocks)



subsection \<open>Decoding what was encoded\<close>

lemma length_le_bytes [simp]: "length (le_bytes n v) = n"
  by (induction n arbitrary: v) auto

lemma le_nat_le_bytes: "v < 256 ^ n \<Longrightarrow> le_nat (le_bytes n v) = v"
proof (induction n arbitrary: v)
  case 0
  then show ?case by simp
next
  case (Suc n)
  from Suc.prems have "v div 256 < 256 ^ n"
    by (simp add: less_mult_imp_div_less mult.commute)
  with Suc.IH have "le_nat (le_bytes n (v div 256)) = v div 256" by blast
  then show ?case by simp
qed


lemma read_append [simp]: "length bs = n \<Longrightarrow> read n (bs @ rest) = Inr (bs, rest)"
  by (simp add: read_def)







lemma read_double_enc: "read_double (enc_double x @ rest) = Inr (x, rest)"
proof -
  have "unat x < 256 ^ 8" using unsigned_less [of x] by simp
  then show ?thesis
    by (simp add: read_double_def enc_double_def bindR_def le_nat_le_bytes del: le_bytes.simps)
qed


subsection \<open>The footer scan\<close>





subsection \<open>Early returns\<close>

lemma readMagicString_iff: "fst (readMagicString fl) \<longleftrightarrow> take 3 fl = ''HIC''"
proof (cases fl)
  case Nil
  then show ?thesis by (simp add: readMagicString_def getline_def at_def)
next
  case (Cons a f1)
  show ?thesis
  proof (cases f1)
    case Nil
    with Cons show ?thesis by (auto simp: readMagicString_def getline_def at_def)
  next
    case (Cons b f2)
    note c2 = this
    show ?thesis
    proof (cases f2)
      case Nil
      with c2 \<open>fl = a # f1\<close> show ?thesis
        by (auto simp: readMagicString_def getline_def at_def)
    next
      case (Cons c f3)
      with c2 \<open>fl = a # f1\<close> show ?thesis
        by (auto simp: readMagicString_def getline_def at_def)
    qed
  qed
qed

text \<open>
  C4, as the source has it. The source has no error values: for a local file whose
  first three bytes are not \<open>HIC\<close> (and a unit \<open>BP\<close> or \<open>FRAG\<close>), \<open>readHeader\<close>
  reports the missing magic string on \<^verbatim>\<open>cerr\<close> and returns an empty chromosome map,
  so \<open>straw\<close> reports that the first chromosome is not in the file and returns an
  empty vector.
\<close>

theorem straw_not_hic:
  assumes "unit = ''BP'' \<or> unit = ''FRAG''" and "take 4 fname \<noteq> ''http''"
    and "files P fname = Some fl" and "take 3 fl \<noteq> ''HIC''"
  shows "straw P norm fname chr1loc chr2loc unit binsize =
           Inr ([''Hi-C magic string is missing, does not appear to be a hic file'',
                 fst (getline_ss (CHR '':'') (Some chr1loc)) @ '' not found in the file.''], [])"
proof -
  have "\<not> fst (readMagicString fl)"
    using assms(4) by (simp add: readMagicString_iff)
  then have h: "readHeader (version0 P) fl =
      Inr ([''Hi-C magic string is missing, does not appear to be a hic file''],
           Map.empty, - 1, version0 P, snd (readMagicString fl))"
    by (cases "readMagicString fl") (auto simp: readHeader_def)
  show ?thesis
    using assms(1,2,3)
    by (cases "getline_ss (CHR '':'') (Some chr1loc)")
       (auto simp: straw_def query_setup_def query_regions_def h bindR_def)
qed

theorem straw_not_hic_witness:
  "(''BP'' = ''BP'' \<or> ''BP'' = ''FRAG'') \<and> take 4 ''notes.txt'' \<noteq> ''http'' \<and>
   files ex_platform ''notes.txt'' = Some ''not a hic file'' \<and>
   take 3 ''not a hic file'' \<noteq> ''HIC'' \<and>
   straw ex_platform ''NONE'' ''notes.txt'' ''1:0:300'' ''2'' ''BP'' 100 =
     Inr ([''Hi-C magic string is missing, does not appear to be a hic file'',
           ''1 not found in the file.''], [])"
proof -
  have f: "files ex_platform ''notes.txt'' = Some ''not a hic file''"
    by (simp add: ex_platform_def)
  have g: "fst (getline_ss (CHR '':'') (Some ''1:0:300'')) = ''1''"
    by (simp add: getline_ss_def)
  show ?thesis
    using straw_not_hic [of "''BP''" "''notes.txt''" ex_platform "''not a hic file''"
        "''NONE''" "''1:0:300''" "''2''" 100] f g
    by simp
qed

text \<open>
  The claim C4 asks for an error value \<open>FormatError(NotHic)\<close>. On the text file the
  query returns normally, with an empty vector.
\<close>

theorem straw_not_hic_returns:
  "straw ex_platform ''NONE'' ''notes.txt'' ''1'' ''1'' ''BP'' 100 =
     Inr ([''Hi-C magic string is missing, does not appear to be a hic file'',
           ''1 not found in the file.''], []) \<and>
   \<not> isl (straw ex_platform ''NONE'' ''notes.txt'' ''1'' ''1'' ''BP'' 100)"
  by code_simp

text \<open>
  C5, as the source has it. For a unit other than \<open>BP\<close> and \<open>FRAG\<close>, \<open>straw\<close>
  writes two lines to \<^verbatim>\<open>cerr\<close> and returns an empty vector, and \<open>getSize\<close> returns
  \<open>0\<close>, whatever the platform holds: no file is opened and nothing is fetched. No
  error value is raised.
\<close>

theorem straw_bad_unit:
  assumes "unit \<noteq> ''BP''" and "unit \<noteq> ''FRAG''"
  shows "straw P norm fname chr1loc chr2loc unit binsize =
           Inr ([''Norm specified incorrectly, must be one of <BP/FRAG>'', usage], []) \<and>
         getSize P norm fname chr1loc chr2loc unit binsize =
           Inr ([''Norm specified incorrectly, must be one of <BP/FRAG>'', usage], 0)"
  using assms by (simp add: straw_def getSize_def query_setup_def query_regions_def bindR_def)

theorem straw_bad_unit_witness:
  "''bp'' \<noteq> ''BP'' \<and> ''bp'' \<noteq> ''FRAG'' \<and>
   straw ex_platform ''NONE'' ''http://host/ex.hic'' ''1'' ''2'' ''bp'' 100 =
     Inr ([''Norm specified incorrectly, must be one of <BP/FRAG>'', usage], []) \<and>
   getSize ex_platform ''NONE'' ''http://host/ex.hic'' ''1'' ''2'' ''bp'' 100 =
     Inr ([''Norm specified incorrectly, must be one of <BP/FRAG>'', usage], 0)"
  using straw_bad_unit [of "''bp''" ex_platform "''NONE''" "''http://host/ex.hic''" "''1''" "''2''" 100]
  by simp

text \<open>
  The claim C5 asks for an error value \<open>UserError(BadUnit)\<close>. With the unit \<open>KB\<close> the
  query on the small file returns normally, with an empty vector.
\<close>

theorem straw_bad_unit_returns:
  "straw ex_platform ''NONE'' ''ex.hic'' ''1'' ''2'' ''KB'' 100 =
     Inr ([''Norm specified incorrectly, must be one of <BP/FRAG>'', usage], []) \<and>
   \<not> isl (straw ex_platform ''NONE'' ''ex.hic'' ''1'' ''2'' ''KB'' 100)"
  by code_simp

subsection \<open>The matrix of a chromosome pair\<close>






subsection \<open>Decoding a block\<close>

lemma bindR_Inr [simp]: "bindR (Inr x) f = f x"
  by (simp add: bindR_def)

lemma bindR_Inl [simp]: "bindR (Inl e) f = Inl e"
  by (simp add: bindR_def)

lemma bindR_eq_Inr: "bindR m f = Inr y \<longleftrightarrow> (\<exists>x. m = Inr x \<and> f x = Inr y)"
  by (cases m) auto

















subsection \<open>The number of records of a query\<close>









subsection \<open>The region filter\<close>






subsection \<open>A missing normalization vector\<close>

text \<open>
  C7 on the small file, whose index of normalization vectors has \<open>VC\<close> for chromosome
  \<open>1\<close> (index 0) and not for chromosome \<open>2\<close>. \<open>readFooter\<close> writes the warning and
  returns true with \<open>c2NormEntry\<close> never assigned; \<open>straw\<close> then takes the size and
  the position of the second vector from that variable.
\<close>

theorem straw_missing_norm_uninitialised:
  "bindR (seekg ex_file 236) (\<lambda>fin. readFooter fin 236 0 1 ''VC'' ''BP'' 100) =
     Inr ([''File did not contain VC normalization vectors for one or both chromosomes at 100 BP''],
          True, Some 38, Some \<lparr>sizeE = 92, position = 144\<rparr>, None) \<and>
   load_norm ex_file None = Inl Uninitialised \<and>
   straw ex_platform ''VC'' ''ex.hic'' ''1'' ''2'' ''BP'' 100 = Inl Uninitialised"
  by code_simp

subsection \<open>Exchanging the two regions of a query\<close>

lemma getBlockNumbers_exchanged:
  "getBlockNumbersForRegionFromBinPosition (exchanged ri) bbc bcc True =
   getBlockNumbersForRegionFromBinPosition ri bbc bcc True"
proof -
  obtain a b c d where ri: "ri = (a, b, c, d)" by (cases ri) auto
  have "set (getBlockNumbersForRegionFromBinPosition (exchanged ri) bbc bcc True) =
        set (getBlockNumbersForRegionFromBinPosition ri bbc bcc True)"
    by (auto simp: ri exchanged_def getBlockNumbersForRegionFromBinPosition_def Let_def
        set_insert_blocks)
  then show ?thesis
    using sorted_distinct_getBlockNumbers [of "exchanged ri" bbc bcc True]
      sorted_distinct_getBlockNumbers [of ri bbc bcc True]
    by (intro sorted_distinct_set_unique) auto
qed

lemma spec_in_region_exchanged:
  "spec_in_region (exchanged region) True x y = spec_in_region region True x y"
  by (cases region) (auto simp: spec_in_region_def exchanged_def)

lemma straw_record_region_form:
  "straw_record P norm binsize q rec records =
     bindR (if norm \<noteq> ''NONE''
            then bindR (subscript (q_c1Norm q) (binX rec)) (\<lambda>n1.
                 bindR (subscript (q_c2Norm q) (binY rec)) (\<lambda>n2.
                   Inr (normalise P (counts rec) n1 n2)))
            else Inr (counts rec)) (\<lambda>c.
       if spec_in_region (q_origRegionIndices q) (q_intra q)
            (binX rec * binsize) (binY rec * binsize)
       then Inr (records @ [\<lparr>binX = binX rec * binsize, binY = binY rec * binsize, counts = c\<rparr>])
       else Inr records)"
  by (cases "q_origRegionIndices q") (simp add: straw_record_def Let_def spec_in_region_def)

lemma straw_record_exchanged:
  assumes "q_intra q"
  shows "straw_record P norm binsize
           (q\<lparr>q_origRegionIndices := exchanged (q_origRegionIndices q)\<rparr>) rec records =
         straw_record P norm binsize q rec records"
  using assms by (simp add: straw_record_region_form spec_in_region_exchanged)

lemma straw_records_exchanged:
  assumes "q_intra q"
  shows "straw_records P norm binsize
           (q\<lparr>q_origRegionIndices := exchanged (q_origRegionIndices q)\<rparr>) tmp records =
         straw_records P norm binsize q tmp records"
proof (induction tmp arbitrary: records)
  case Nil
  show ?case by simp
next
  case (Cons rec tmp)
  have "straw_records P norm binsize
          (q\<lparr>q_origRegionIndices := exchanged (q_origRegionIndices q)\<rparr>) tmp =
        straw_records P norm binsize q tmp"
    using Cons.IH by (intro ext)
  then show ?case by (simp add: straw_record_exchanged [OF assms])
qed

lemma straw_blocks_exchanged:
  assumes "q_intra q"
  shows "straw_blocks P norm binsize
           (q\<lparr>q_origRegionIndices := exchanged (q_origRegionIndices q)\<rparr>) blocks records =
         straw_blocks P norm binsize q blocks records"
proof (induction blocks arbitrary: records)
  case Nil
  show ?case by simp
next
  case (Cons b blocks)
  have "straw_blocks P norm binsize
          (q\<lparr>q_origRegionIndices := exchanged (q_origRegionIndices q)\<rparr>) blocks =
        straw_blocks P norm binsize q blocks"
    using Cons.IH by (intro ext)
  then show ?case by (simp add: straw_records_exchanged [OF assms])
qed

lemma query_regions_Ready_iff:
  "query_regions P fname chr1loc chr2loc unit binsize = Inr (Ready r) \<longleftrightarrow>
   (\<exists>fl cerr1 cm master version fin chrom1 c1pos1 c1pos2 chrom2 c2pos1 c2pos2.
      (unit = ''BP'' \<or> unit = ''FRAG'') \<and> take 4 fname \<noteq> ''http'' \<and>
      files P fname = Some fl \<and>
      readHeader (version0 P) fl = Inr (cerr1, cm, master, version, fin) \<and>
      cm (fst (getline_ss (CHR '':'') (Some chr1loc))) = Some chrom1 \<and>
      positions (snd (snd (getline_ss (CHR '':'') (Some chr1loc)))) chrom1 =
        Inr (c1pos1, c1pos2) \<and>
      cm (fst (getline_ss (CHR '':'') (Some chr2loc))) = Some chrom2 \<and>
      positions (snd (snd (getline_ss (CHR '':'') (Some chr2loc)))) chrom2 =
        Inr (c2pos1, c2pos2) \<and>
      binsize \<noteq> 0 \<and>
      r = \<lparr>r_cerr = cerr1, r_file = fl, r_version = version, r_master = master,
           r_c1 = min (index chrom1) (index chrom2),
           r_c2 = max (index chrom1) (index chrom2),
           r_origRegionIndices =
             (if index chrom1 > index chrom2 then (c2pos1, c2pos2, c1pos1, c1pos2)
              else (c1pos1, c1pos2, c2pos1, c2pos2)),
           r_regionIndices =
             (if index chrom1 > index chrom2
              then (c2pos1 sdiv binsize, c2pos2 sdiv binsize,
                    c1pos1 sdiv binsize, c1pos2 sdiv binsize)
              else (c1pos1 sdiv binsize, c1pos2 sdiv binsize,
                    c2pos1 sdiv binsize, c2pos2 sdiv binsize))\<rparr>)"
  unfolding query_regions_def bindR_def Let_def
  by (simp split: if_splits option.splits sum.splits prod.splits) auto

lemma query_regions_exchanged:
  assumes "query_regions P fname chr1loc chr2loc unit binsize = Inr (Ready r)"
  shows "query_regions P fname chr2loc chr1loc unit binsize = Inr (Ready r) \<or>
         (r_c1 r = r_c2 r \<and>
          query_regions P fname chr2loc chr1loc unit binsize =
            Inr (Ready (r\<lparr>r_origRegionIndices := exchanged (r_origRegionIndices r),
                           r_regionIndices := exchanged (r_regionIndices r)\<rparr>)))"
proof -
  from assms [unfolded query_regions_Ready_iff]
  obtain fl cerr1 cm master version fin chrom1 c1pos1 c1pos2 chrom2 c2pos1 c2pos2 where
    f: "unit = ''BP'' \<or> unit = ''FRAG''" "take 4 fname \<noteq> ''http''"
      "files P fname = Some fl"
      "readHeader (version0 P) fl = Inr (cerr1, cm, master, version, fin)"
      "cm (fst (getline_ss (CHR '':'') (Some chr1loc))) = Some chrom1"
      "positions (snd (snd (getline_ss (CHR '':'') (Some chr1loc)))) chrom1 =
        Inr (c1pos1, c1pos2)"
      "cm (fst (getline_ss (CHR '':'') (Some chr2loc))) = Some chrom2"
      "positions (snd (snd (getline_ss (CHR '':'') (Some chr2loc)))) chrom2 =
        Inr (c2pos1, c2pos2)"
      "binsize \<noteq> 0"
    and r: "r = \<lparr>r_cerr = cerr1, r_file = fl, r_version = version, r_master = master,
           r_c1 = min (index chrom1) (index chrom2),
           r_c2 = max (index chrom1) (index chrom2),
           r_origRegionIndices =
             (if index chrom1 > index chrom2 then (c2pos1, c2pos2, c1pos1, c1pos2)
              else (c1pos1, c1pos2, c2pos1, c2pos2)),
           r_regionIndices =
             (if index chrom1 > index chrom2
              then (c2pos1 sdiv binsize, c2pos2 sdiv binsize,
                    c1pos1 sdiv binsize, c1pos2 sdiv binsize)
              else (c1pos1 sdiv binsize, c1pos2 sdiv binsize,
                    c2pos1 sdiv binsize, c2pos2 sdiv binsize))\<rparr>"
    by blast
  have "query_regions P fname chr2loc chr1loc unit binsize =
      Inr (Ready \<lparr>r_cerr = cerr1, r_file = fl, r_version = version, r_master = master,
           r_c1 = min (index chrom2) (index chrom1),
           r_c2 = max (index chrom2) (index chrom1),
           r_origRegionIndices =
             (if index chrom2 > index chrom1 then (c1pos1, c1pos2, c2pos1, c2pos2)
              else (c2pos1, c2pos2, c1pos1, c1pos2)),
           r_regionIndices =
             (if index chrom2 > index chrom1
              then (c1pos1 sdiv binsize, c1pos2 sdiv binsize,
                    c2pos1 sdiv binsize, c2pos2 sdiv binsize)
              else (c2pos1 sdiv binsize, c2pos2 sdiv binsize,
                    c1pos1 sdiv binsize, c1pos2 sdiv binsize))\<rparr>)"
    unfolding query_regions_Ready_iff using f by blast
  then show ?thesis
    unfolding r by (auto simp: exchanged_def min_def max_def)
qed

lemma query_blocks_intra:
  assumes "query_blocks norm unit binsize r = Inr (Ready q)"
  shows "q_intra q = (r_c1 r = r_c2 r) \<and> q_origRegionIndices q = r_origRegionIndices r"
  using assms
  unfolding query_blocks_def bindR_def
  by (simp split: if_splits option.splits sum.splits prod.splits) auto

lemma query_blocks_exchanged:
  assumes "r_c1 r = r_c2 r"
  shows "query_blocks norm unit binsize
           (r\<lparr>r_origRegionIndices := exchanged (r_origRegionIndices r),
              r_regionIndices := exchanged (r_regionIndices r)\<rparr>) =
         bindR (query_blocks norm unit binsize r) (\<lambda>s.
           case s of
             Reported l \<Rightarrow> Inr (Reported l)
           | Ready q \<Rightarrow>
               Inr (Ready (q\<lparr>q_origRegionIndices := exchanged (q_origRegionIndices q)\<rparr>)))"
  unfolding query_blocks_def bindR_def
  by (simp add: assms getBlockNumbers_exchanged
      split: if_splits option.splits sum.splits prod.splits)

lemma straw_Ready:
  assumes "query_regions P fname chr1loc chr2loc unit binsize = Inr (Ready r)"
  shows "straw P norm fname chr1loc chr2loc unit binsize =
     bindR (query_blocks norm unit binsize r) (\<lambda>s.
       case s of
         Reported l \<Rightarrow> Inr (l, [])
       | Ready q \<Rightarrow>
           bindR (straw_blocks P norm binsize q (q_blockNumbers q) [])
             (\<lambda>records. Inr (q_cerr q, records)))"
  by (simp add: straw_def query_setup_def assms)

lemma straw_Ready_exchanged:
  assumes "query_regions P fname chr1loc chr2loc unit binsize =
             Inr (Ready (r\<lparr>r_origRegionIndices := exchanged (r_origRegionIndices r),
                            r_regionIndices := exchanged (r_regionIndices r)\<rparr>))"
    and "r_c1 r = r_c2 r"
  shows "straw P norm fname chr1loc chr2loc unit binsize =
     bindR (query_blocks norm unit binsize r) (\<lambda>s.
       case s of
         Reported l \<Rightarrow> Inr (l, [])
       | Ready q \<Rightarrow>
           bindR (straw_blocks P norm binsize q (q_blockNumbers q) [])
             (\<lambda>records. Inr (q_cerr q, records)))"
proof (cases "query_blocks norm unit binsize r")
  case (Inl e)
  then show ?thesis
    by (simp add: straw_Ready [OF assms(1)] query_blocks_exchanged [OF assms(2)])
next
  case (Inr s)
  show ?thesis
  proof (cases s)
    case (Reported l)
    with Inr show ?thesis
      by (simp add: straw_Ready [OF assms(1)] query_blocks_exchanged [OF assms(2)])
  next
    case (Ready q)
    with Inr have "q_intra q"
      using query_blocks_intra [of norm unit binsize r q] assms(2) by simp
    with Inr Ready show ?thesis
      by (simp add: straw_Ready [OF assms(1)] query_blocks_exchanged [OF assms(2)]
          straw_blocks_exchanged)
  qed
qed

text \<open>
  C9, as the source has it. \<open>straw\<close> puts the two regions into the order of the
  chromosome indices before it reads anything, and it returns the records in the
  orientation of the file. When the query with the two region strings exchanged returns
  as well, it returns the very same records in the same order: nothing is transposed.
\<close>

theorem straw_exchanged:
  assumes "straw P norm fname chr1loc chr2loc unit binsize = Inr (lines, records)"
    and "straw P norm fname chr2loc chr1loc unit binsize = Inr (lines', records')"
  shows "records' = records"
proof -
  from assms(1) obtain st where
    A: "query_regions P fname chr1loc chr2loc unit binsize = Inr st"
    by (auto simp: straw_def query_setup_def bindR_eq_Inr)
  from assms(2) obtain st' where
    B: "query_regions P fname chr2loc chr1loc unit binsize = Inr st'"
    by (auto simp: straw_def query_setup_def bindR_eq_Inr)
  show ?thesis
  proof (cases st)
    case (Ready r)
    from query_regions_exchanged [OF A [unfolded Ready]]
    have "straw P norm fname chr2loc chr1loc unit binsize =
          straw P norm fname chr1loc chr2loc unit binsize"
    proof
      assume "query_regions P fname chr2loc chr1loc unit binsize = Inr (Ready r)"
      then show ?thesis
        by (simp add: straw_Ready [OF A [unfolded Ready]] straw_Ready)
    next
      assume "r_c1 r = r_c2 r \<and>
          query_regions P fname chr2loc chr1loc unit binsize =
            Inr (Ready (r\<lparr>r_origRegionIndices := exchanged (r_origRegionIndices r),
                           r_regionIndices := exchanged (r_regionIndices r)\<rparr>))"
      then show ?thesis
        by (simp add: straw_Ready [OF A [unfolded Ready]] straw_Ready_exchanged)
    qed
    with assms show ?thesis by simp
  next
    case (Reported l)
    with A assms(1) have e: "records = []"
      by (simp add: straw_def query_setup_def)
    show ?thesis
    proof (cases st')
      case (Reported l')
      with B assms(2) have "records' = []"
        by (simp add: straw_def query_setup_def)
      with e show ?thesis by simp
    next
      case (Ready r')
      from query_regions_exchanged [OF B [unfolded Ready]] A \<open>st = Reported l\<close>
      show ?thesis by auto
    qed
  qed
qed

theorem straw_exchanged_witness:
  "straw ex_platform ''NONE'' ''ex.hic'' ''1'' ''2'' ''BP'' 100 =
     Inr ([], [\<lparr>binX = 100, binY = 200, counts = 0x40A00000\<rparr>,
               \<lparr>binX = 700, binY = 200, counts = 0x40400000\<rparr>]) \<and>
   snd (projr (straw ex_platform ''NONE'' ''ex.hic'' ''2'' ''1'' ''BP'' 100)) =
     [\<lparr>binX = 100, binY = 200, counts = 0x40A00000\<rparr>,
      \<lparr>binX = 700, binY = 200, counts = 0x40400000\<rparr>]"
proof -
  have ev: "straw ex_platform ''NONE'' ''ex.hic'' ''1'' ''2'' ''BP'' 100 =
     Inr ([], [\<lparr>binX = 100, binY = 200, counts = 0x40A00000\<rparr>,
               \<lparr>binX = 700, binY = 200, counts = 0x40400000\<rparr>])"
    by code_simp
  have "\<not> isl (straw ex_platform ''NONE'' ''ex.hic'' ''2'' ''1'' ''BP'' 100)"
    by code_simp
  then obtain lines' records' where
    ev': "straw ex_platform ''NONE'' ''ex.hic'' ''2'' ''1'' ''BP'' 100 = Inr (lines', records')"
    by (cases "straw ex_platform ''NONE'' ''ex.hic'' ''2'' ''1'' ''BP'' 100") auto
  from straw_exchanged [OF ev ev'] ev ev' show ?thesis by simp
qed

text \<open>
  The claim C9 has the records of the exchanged query transposed. On the small file
  the query for chromosome \<open>2\<close> against chromosome \<open>1\<close> returns the records
  \<open>(100, 200)\<close> and \<open>(700, 200)\<close> of the query for \<open>1\<close> against \<open>2\<close> as they
  are, and not \<open>(200, 100)\<close> and \<open>(200, 700)\<close>.
\<close>

theorem straw_exchanged_not_transposed:
  "straw ex_platform ''NONE'' ''ex.hic'' ''1'' ''2'' ''BP'' 100 =
     Inr ([], [\<lparr>binX = 100, binY = 200, counts = 0x40A00000\<rparr>,
               \<lparr>binX = 700, binY = 200, counts = 0x40400000\<rparr>]) \<and>
   straw ex_platform ''NONE'' ''ex.hic'' ''2'' ''1'' ''BP'' 100 =
     Inr ([], [\<lparr>binX = 100, binY = 200, counts = 0x40A00000\<rparr>,
               \<lparr>binX = 700, binY = 200, counts = 0x40400000\<rparr>]) \<and>
   straw ex_platform ''NONE'' ''ex.hic'' ''2'' ''1'' ''BP'' 100 \<noteq>
     Inr ([], [\<lparr>binX = 200, binY = 100, counts = 0x40A00000\<rparr>,
               \<lparr>binX = 200, binY = 700, counts = 0x40400000\<rparr>])"
  by code_simp

end
